theory Spec2Isabelle
  imports Complex_Main
begin

section \<open>Moderation decision logic (models/moderation-decision-logic/1/model.py)\<close>

text \<open>
  The model follows \<^verbatim>\<open>TritonPythonModel\<close> of the decision-logic model function by
  function. Python floats and numpy float arrays are read as real numbers: a score is
  the real number the float denotes, and \<^verbatim>\<open>np.mean\<close> and \<^verbatim>\<open>max\<close> are the exact
  mean and maximum. Byte strings and Python strings are lists of characters; the text
  model is exact on 7-bit ASCII, where UTF-8 decoding is the identity.
\<close>

subsection \<open>Exceptions\<close>

datatype py_error = AttributeError | IndexError | UnicodeDecodeError | ValueError

text \<open>\<^verbatim>\<open>xs[0]\<close> and \<^verbatim>\<open>xs[1]\<close> on a numpy array: an IndexError out of range.\<close>

fun py_index :: "'a list \<Rightarrow> nat \<Rightarrow> py_error + 'a" where
  "py_index [] n = Inl IndexError"
| "py_index (x # xs) 0 = Inr x"
| "py_index (x # xs) (Suc n) = py_index xs n"

subsection \<open>Strings\<close>

text \<open>
  \<^verbatim>\<open>bytes.decode('utf-8')\<close>. Bytes below 128 decode to themselves. A byte above 127
  starts or continues a multi-byte sequence, which this model does not decode: it is
  reported as the UnicodeDecodeError that Python raises for a malformed sequence.
\<close>

definition decode_utf8 :: "string \<Rightarrow> py_error + string" where
  "decode_utf8 bs = (if list_all (\<lambda>c. (of_char c :: nat) < 128) bs then Inr bs
                     else Inl UnicodeDecodeError)"

text \<open>The list comprehension \<^verbatim>\<open>[text.decode('utf-8') for text in ...]\<close>.\<close>

fun decode_all :: "string list \<Rightarrow> py_error + string list" where
  "decode_all [] = Inr []"
| "decode_all (b # bs) =
     (case decode_utf8 b of
        Inl e \<Rightarrow> Inl e
      | Inr s \<Rightarrow> (case decode_all bs of Inl e \<Rightarrow> Inl e | Inr ss \<Rightarrow> Inr (s # ss)))"

text \<open>\<^verbatim>\<open>' '.join(parts)\<close>.\<close>

fun join_space :: "string list \<Rightarrow> string" where
  "join_space [] = []"
| "join_space [s] = s"
| "join_space (s # t # ts) = s @ '' '' @ join_space (t # ts)"

text \<open>\<^verbatim>\<open>str.lower()\<close> on ASCII: the letters A to Z move to a to z.\<close>

definition lower_char :: "char \<Rightarrow> char" where
  "lower_char c = (let n = (of_char c :: nat)
                   in if 65 \<le> n \<and> n \<le> 90 then char_of (n + 32) else c)"

definition lower :: "string \<Rightarrow> string" where
  "lower s = map lower_char s"

text \<open>
  \<^verbatim>\<open>str.isspace\<close> on ASCII: tab, line feed, vertical tab, form feed, carriage
  return, the four separators 28 to 31, and the space.
\<close>

definition isspace :: "char \<Rightarrow> bool" where
  "isspace c = (let n = (of_char c :: nat)
                in (9 \<le> n \<and> n \<le> 13) \<or> (28 \<le> n \<and> n \<le> 32))"

text \<open>\<^verbatim>\<open>str.strip()\<close>: whitespace removed at both ends.\<close>

definition strip :: "string \<Rightarrow> string" where
  "strip s = rev (dropWhile isspace (rev (dropWhile isspace s)))"

text \<open>\<^verbatim>\<open>keyword in text\<close>: the keyword occurs as a contiguous run of the text.\<close>

fun startswith :: "string \<Rightarrow> string \<Rightarrow> bool" where
  "startswith t [] = True"
| "startswith [] (k # ks) = False"
| "startswith (c # cs) (k # ks) = (c = k \<and> startswith cs ks)"

fun contains :: "string \<Rightarrow> string \<Rightarrow> bool" where
  "contains [] k = (k = [])"
| "contains (c # cs) k = (startswith (c # cs) k \<or> contains cs k)"

text \<open>\<^verbatim>\<open>str(n)\<close> for an integer, used by the f-string \<^verbatim>\<open>f'class_{class_id}'\<close>.\<close>

fun digits :: "nat \<Rightarrow> string" where
  "digits n = (if n < 10 then [char_of (48 + n)]
               else digits (n div 10) @ [char_of (48 + n mod 10)])"

definition str_int :: "int \<Rightarrow> string" where
  "str_int i = (if i < 0 then CHR ''-'' # digits (nat (- i)) else digits (nat i))"

text \<open>\<^verbatim>\<open>str(b)\<close> for a bool, used by the f-string of the safety assessment.\<close>

definition str_bool :: "bool \<Rightarrow> string" where
  "str_bool b = (if b then ''True'' else ''False'')"

subsection \<open>Configuration\<close>

record config =
  safety_threshold :: real
  content_confidence_threshold :: real
  text_confidence_threshold :: real
  sensitive_categories :: "int set"
  blocked_keywords :: "string list"

text \<open>
  \<^verbatim>\<open>initialize\<close> sets the attributes of \<^verbatim>\<open>self\<close> that the decision logic reads.
  (\<^verbatim>\<open>self.model_config\<close> is stored and never read again.)
\<close>

definition initialize :: config where
  "initialize =
     \<lparr> safety_threshold = 85 / 100,
       content_confidence_threshold = 7 / 10,
       text_confidence_threshold = 6 / 10,
       sensitive_categories = {413, 414, 415, 939, 940, 941, 508, 509, 510},
       blocked_keywords =
         [''violence'', ''weapon'', ''hate'', ''discrimination'',
          ''illegal'', ''drugs'', ''explicit'', ''inappropriate''] \<rparr>"

subsection \<open>Factor evaluation\<close>

datatype factor_result = APPROVE | REVIEW | REJECT

record factor =
  result :: factor_result
  confidence :: real
  reason :: string

text \<open>\<^verbatim>\<open>_evaluate_safety\<close>: both scores are read before the branches.\<close>

definition evaluate_safety :: "real list \<Rightarrow> bool \<Rightarrow> string \<Rightarrow> py_error + factor" where
  "evaluate_safety safety_scores is_safe risk_level =
     (case py_index safety_scores 0 of
        Inl e \<Rightarrow> Inl e
      | Inr safe_score \<Rightarrow>
    (case py_index safety_scores 1 of
        Inl e \<Rightarrow> Inl e
      | Inr nsfw_score \<Rightarrow>
          if \<not> is_safe \<or> risk_level = ''HIGH'' then
            Inr \<lparr> result = REJECT, confidence = 95 / 100, reason = ''Safety violation'' \<rparr>
          else if risk_level = ''MEDIUM'' \<or> nsfw_score > 3 / 10 then
            Inr \<lparr> result = REVIEW, confidence = 7 / 10, reason = ''Moderate risk detected'' \<rparr>
          else
            Inr \<lparr> result = APPROVE, confidence = safe_score,
                  reason = ''Content appears safe'' \<rparr>))"

text \<open>\<^verbatim>\<open>_evaluate_content\<close>.\<close>

definition evaluate_content :: "config \<Rightarrow> int \<Rightarrow> real \<Rightarrow> factor" where
  "evaluate_content self content_class conf =
     (if content_class \<in> sensitive_categories self then
        \<lparr> result = REJECT, confidence = conf, reason = ''Sensitive category'' \<rparr>
      else if conf < content_confidence_threshold self then
        \<lparr> result = REVIEW, confidence = conf, reason = ''Low classification confidence'' \<rparr>
      else
        \<lparr> result = APPROVE, confidence = conf, reason = ''Appropriate content category'' \<rparr>)"

text \<open>The loop over \<^verbatim>\<open>self.blocked_keywords\<close>: the first keyword found in the text.\<close>

fun scan_keywords :: "string list \<Rightarrow> string \<Rightarrow> string option" where
  "scan_keywords [] text = None"
| "scan_keywords (keyword # rest) text =
     (if contains text keyword then Some keyword else scan_keywords rest text)"

text \<open>\<^verbatim>\<open>np.mean\<close> of a non-empty sequence.\<close>

definition np_mean :: "real list \<Rightarrow> real" where
  "np_mean xs = sum_list xs / real (length xs)"

text \<open>\<^verbatim>\<open>_evaluate_text\<close>.\<close>

definition evaluate_text :: "config \<Rightarrow> string \<Rightarrow> real list \<Rightarrow> factor" where
  "evaluate_text self text text_confidences =
     (if strip text = [] then
        \<lparr> result = APPROVE, confidence = 1, reason = ''No text detected'' \<rparr>
      else
        (case scan_keywords (blocked_keywords self) text of
           Some keyword \<Rightarrow>
             \<lparr> result = REJECT, confidence = 9 / 10,
               reason = ''Blocked keyword: '' @ keyword \<rparr>
         | None \<Rightarrow>
             (let avg_confidence =
                    (if length text_confidences > 0 then np_mean text_confidences else 0)
              in if avg_confidence < text_confidence_threshold self then
                   \<lparr> result = REVIEW, confidence = avg_confidence,
                     reason = ''Low OCR confidence'' \<rparr>
                 else
                   \<lparr> result = APPROVE, confidence = avg_confidence,
                     reason = ''Text content acceptable'' \<rparr>)))"

subsection \<open>Fusion\<close>

text \<open>
  The dict literal \<^verbatim>\<open>decision_factors\<close> always has the three keys below, in this
  order; \<^verbatim>\<open>factors.values()\<close> lists them in that order.
\<close>

record decision_factors =
  safety_check :: factor
  content_check :: factor
  text_check :: factor

definition factor_values :: "decision_factors \<Rightarrow> factor list" where
  "factor_values factors = [safety_check factors, content_check factors, text_check factors]"

datatype decision_label = APPROVED | REVIEW_REQUIRED | REJECTED

text \<open>
  The dict returned by \<^verbatim>\<open>_combine_decision_factors\<close>, with keys \<^verbatim>\<open>decision\<close> and
  \<^verbatim>\<open>confidence\<close> (the latter named \<open>final_confidence\<close> here, \<open>confidence\<close>
  being the field of a factor).
\<close>

record final_decision =
  decision :: decision_label
  final_confidence :: real

text \<open>Python's \<^verbatim>\<open>max\<close> of a list: a ValueError on the empty list.\<close>

fun py_max :: "real list \<Rightarrow> py_error + real" where
  "py_max [] = Inl ValueError"
| "py_max (x # xs) = Inr (foldl max x xs)"

text \<open>\<^verbatim>\<open>_combine_decision_factors\<close>.\<close>

definition combine_decision_factors :: "decision_factors \<Rightarrow> py_error + final_decision" where
  "combine_decision_factors factors =
     (let results = map result (factor_values factors);
          confidences = map confidence (factor_values factors)
      in if REJECT \<in> set results then
           (case py_max (map confidence
                          (filter (\<lambda>f. result f = REJECT) (factor_values factors))) of
              Inl e \<Rightarrow> Inl e
            | Inr c \<Rightarrow> Inr \<lparr> decision = REJECTED, final_confidence = c \<rparr>)
         else if REVIEW \<in> set results then
           Inr \<lparr> decision = REVIEW_REQUIRED, final_confidence = np_mean confidences \<rparr>
         else
           Inr \<lparr> decision = APPROVED, final_confidence = np_mean confidences \<rparr>)"

subsection \<open>The decision for one request\<close>

text \<open>
  The dict built by \<^verbatim>\<open>_extract_inputs\<close>: one numpy array per input tensor.
  \<^verbatim>\<open>safety_scores\<close> is read as a two-dimensional array (a list of rows), the others
  as one-dimensional arrays.
\<close>

record inputs =
  content_scores :: "real list"
  content_class :: "int list"
  content_confidence :: "real list"
  safety_scores :: "real list list"
  is_safe :: "bool list"
  risk_level :: "string list"
  ocr_text :: "string list"
  text_confidence :: "real list"
  detected_language :: "string list"

text \<open>\<^verbatim>\<open>_get_content_category_name\<close>.\<close>

definition category_map :: "int \<Rightarrow> string option" where
  "category_map =
     [281 \<mapsto> ''tabby_cat'', 285 \<mapsto> ''egyptian_cat'',
      413 \<mapsto> ''assault_rifle'', 939 \<mapsto> ''bikini'']"

definition get_content_category_name :: "int \<Rightarrow> string" where
  "get_content_category_name class_id =
     (case category_map class_id of
        Some name \<Rightarrow> name
      | None \<Rightarrow> ''class_'' @ str_int class_id)"

text \<open>
  The dict that \<^verbatim>\<open>json.dumps\<close> serialises into \<^verbatim>\<open>processing_metadata\<close>. The record
  holds the values serialised; the JSON text is a function of them. Serialisation is
  taken to succeed on every number of the dict, as it does on Python floats and on
  numpy 64-bit floats; a numpy 32-bit scalar, which \<^verbatim>\<open>json.dumps\<close> rejects, is not
  told apart from them by a model over the reals.
\<close>

record metadata =
  md_decision_factors :: decision_factors
  md_model_version :: string
  md_processing_time_ms :: int
  md_content_class_id :: int
  md_safety_scores :: "real list"
  md_risk_level :: string

record moderation_result =
  moderation_decision :: decision_label
  confidence_score :: real
  content_category :: string
  safety_assessment :: string
  extracted_text :: "string list"
  processing_metadata :: metadata

text \<open>
  \<^verbatim>\<open>_make_moderation_decision\<close>. The statements run in the source's order, and the
  first one that raises ends the call with its exception.
\<close>

definition make_moderation_decision :: "config \<Rightarrow> inputs \<Rightarrow> py_error + moderation_result" where
  "make_moderation_decision self inp =
     (case py_index (content_class inp) 0 of Inl e \<Rightarrow> Inl e | Inr content_class0 \<Rightarrow>
     (case py_index (content_confidence inp) 0 of Inl e \<Rightarrow> Inl e | Inr content_confidence0 \<Rightarrow>
     (case py_index (safety_scores inp) 0 of Inl e \<Rightarrow> Inl e | Inr safety_scores0 \<Rightarrow>
     (case py_index (is_safe inp) 0 of Inl e \<Rightarrow> Inl e | Inr is_safe0 \<Rightarrow>
     (case py_index (risk_level inp) 0 of Inl e \<Rightarrow> Inl e | Inr risk_bytes \<Rightarrow>
     (case decode_utf8 risk_bytes of Inl e \<Rightarrow> Inl e | Inr risk_level0 \<Rightarrow>
     (case decode_all (ocr_text inp) of Inl e \<Rightarrow> Inl e | Inr ocr_texts \<Rightarrow>
       (let combined_text = lower (join_space ocr_texts)
        in
     (case evaluate_safety safety_scores0 is_safe0 risk_level0 of Inl e \<Rightarrow> Inl e | Inr safety \<Rightarrow>
       (let factors =
              \<lparr> safety_check = safety,
                content_check = evaluate_content self content_class0 content_confidence0,
                text_check = evaluate_text self combined_text (text_confidence inp) \<rparr>
        in
     (case combine_decision_factors factors of Inl e \<Rightarrow> Inl e | Inr final \<Rightarrow>
       Inr \<lparr> moderation_decision = decision final,
             confidence_score = final_confidence final,
             content_category = get_content_category_name content_class0,
             safety_assessment =
               ''Risk: '' @ risk_level0 @ '', Safe: '' @ str_bool is_safe0,
             extracted_text = ocr_texts,
             processing_metadata =
               \<lparr> md_decision_factors = factors,
                 md_model_version = ''v2.1.0'',
                 md_processing_time_ms = 0,
                 md_content_class_id = content_class0,
                 md_safety_scores = safety_scores0,
                 md_risk_level = risk_level0 \<rparr> \<rparr>)))))))))))"

subsection \<open>Requests and responses\<close>

text \<open>
  A request carries named input tensors. \<^verbatim>\<open>pb_utils.get_input_tensor_by_name\<close> returns
  \<^verbatim>\<open>None\<close> for a name the request does not carry, and \<^verbatim>\<open>None.as_numpy()\<close> raises
  AttributeError.
\<close>

record request =
  req_content_scores :: "real list option"
  req_content_class :: "int list option"
  req_content_confidence :: "real list option"
  req_safety_scores :: "real list list option"
  req_is_safe :: "bool list option"
  req_risk_level :: "string list option"
  req_ocr_text :: "string list option"
  req_text_confidence :: "real list option"
  req_detected_language :: "string list option"

definition as_numpy :: "'a option \<Rightarrow> py_error + 'a" where
  "as_numpy t = (case t of None \<Rightarrow> Inl AttributeError | Some a \<Rightarrow> Inr a)"

text \<open>\<^verbatim>\<open>_extract_inputs\<close>: the nine tensors are fetched in the source's order.\<close>

definition extract_inputs :: "request \<Rightarrow> py_error + inputs" where
  "extract_inputs request =
     (case as_numpy (req_content_scores request) of Inl e \<Rightarrow> Inl e | Inr v1 \<Rightarrow>
     (case as_numpy (req_content_class request) of Inl e \<Rightarrow> Inl e | Inr v2 \<Rightarrow>
     (case as_numpy (req_content_confidence request) of Inl e \<Rightarrow> Inl e | Inr v3 \<Rightarrow>
     (case as_numpy (req_safety_scores request) of Inl e \<Rightarrow> Inl e | Inr v4 \<Rightarrow>
     (case as_numpy (req_is_safe request) of Inl e \<Rightarrow> Inl e | Inr v5 \<Rightarrow>
     (case as_numpy (req_risk_level request) of Inl e \<Rightarrow> Inl e | Inr v6 \<Rightarrow>
     (case as_numpy (req_ocr_text request) of Inl e \<Rightarrow> Inl e | Inr v7 \<Rightarrow>
     (case as_numpy (req_text_confidence request) of Inl e \<Rightarrow> Inl e | Inr v8 \<Rightarrow>
     (case as_numpy (req_detected_language request) of Inl e \<Rightarrow> Inl e | Inr v9 \<Rightarrow>
       Inr \<lparr> content_scores = v1, content_class = v2, content_confidence = v3,
             safety_scores = v4, is_safe = v5, risk_level = v6,
             ocr_text = v7, text_confidence = v8, detected_language = v9 \<rparr>)))))))))"

text \<open>
  The output tensors of \<^verbatim>\<open>_create_response_tensors\<close>, in the order they are appended:
  each is a name and an array. The confidence is stored as a 32-bit float; the model
  keeps the real number.
\<close>

datatype tensor_data =
    Object_array "string list"
  | Float32_array "real list"
  | Decision_array "decision_label list"
  | Json_array "metadata list"

type_synonym tensor = "string \<times> tensor_data"

definition create_response_tensors :: "moderation_result \<Rightarrow> tensor list" where
  "create_response_tensors res =
     [(''moderation_decision'', Decision_array [moderation_decision res]),
      (''confidence_score'', Float32_array [confidence_score res]),
      (''content_category'', Object_array [content_category res]),
      (''safety_assessment'', Object_array [safety_assessment res]),
      (''extracted_text'', Object_array (extracted_text res)),
      (''processing_metadata'', Json_array [processing_metadata res])]"

text \<open>
  An \<^verbatim>\<open>InferenceResponse\<close> holds either output tensors or a \<^verbatim>\<open>TritonError\<close>, whose
  message is \<^verbatim>\<open>"Processing error: "\<close> followed by the text of the exception caught.
\<close>

datatype response = InferenceResponse "tensor list" | ErrorResponse py_error

text \<open>The body of the \<^verbatim>\<open>try\<close> block of \<^verbatim>\<open>execute\<close>.\<close>

definition process_request :: "config \<Rightarrow> request \<Rightarrow> py_error + tensor list" where
  "process_request self request =
     (case extract_inputs request of
        Inl e \<Rightarrow> Inl e
      | Inr inp \<Rightarrow>
          (case make_moderation_decision self inp of
             Inl e \<Rightarrow> Inl e
           | Inr decision_result \<Rightarrow> Inr (create_response_tensors decision_result)))"

text \<open>
  The loop of \<^verbatim>\<open>execute\<close>: \<open>responses\<close> is the list built so far; each request
  appends the response of its \<^verbatim>\<open>try\<close> block or the error response of the handler.
\<close>

fun execute_loop :: "config \<Rightarrow> request list \<Rightarrow> response list \<Rightarrow> response list" where
  "execute_loop self [] responses = responses"
| "execute_loop self (request # requests) responses =
     (case process_request self request of
        Inr response_tensors \<Rightarrow>
          execute_loop self requests (responses @ [InferenceResponse response_tensors])
      | Inl e \<Rightarrow>
          execute_loop self requests (responses @ [ErrorResponse e]))"

definition execute :: "config \<Rightarrow> request list \<Rightarrow> response list" where
  "execute self requests = execute_loop self requests []"

subsection \<open>Example bundles\<close>










definition example_request :: request where
  "example_request =
     \<lparr> req_content_scores = Some [1 / 10, 2 / 10], req_content_class = Some [281],
       req_content_confidence = Some [8 / 10],
       req_safety_scores = Some [[9 / 10, 5 / 100, 0, 0, 0]], req_is_safe = Some [True],
       req_risk_level = Some [''LOW''], req_ocr_text = Some [],
       req_text_confidence = Some [], req_detected_language = Some [''en''] \<rparr>"

definition example_failing_request :: request where
  "example_failing_request = example_request \<lparr> req_content_class := Some [] \<rparr>"




definition example_confidence_request :: request where
  "example_confidence_request = example_request \<lparr> req_content_confidence := Some [3 / 2] \<rparr>"

definition example_risk_request :: request where
  "example_risk_request = example_request \<lparr> req_risk_level := Some [''BANANA''] \<rparr>"

definition example_short_scores_request :: request where
  "example_short_scores_request =
     example_request \<lparr> req_safety_scores := Some [[9 / 10, 5 / 100, 0]] \<rparr>"

section \<open>Properties\<close>

subsection \<open>Strings and the keyword scan\<close>









lemma foldl_max_Max: "foldl max x xs = Max (set (x # xs))"
proof (induction xs arbitrary: x)
  case Nil
  show ?case by simp
next
  case (Cons y ys)
  have "foldl max x (y # ys) = Max (set (max x y # ys))" using Cons.IH by simp
  also have "\<dots> = Max (set (x # y # ys))"
    by (cases ys) (auto simp: max.assoc)
  finally show ?case .
qed

subsection \<open>Fusion\<close>

lemma py_max_Max: "xs \<noteq> [] \<Longrightarrow> py_max xs = Inr (Max (set xs))"
  by (cases xs) (simp_all only: py_max.simps foldl_max_Max, simp)

lemma reject_filter_nonempty:
  "REJECT \<in> result ` set fs \<Longrightarrow> filter (\<lambda>f. result f = REJECT) fs \<noteq> []"
proof -
  assume "REJECT \<in> result ` set fs"
  then obtain f where f: "f \<in> set fs" "result f = REJECT" by force
  then have "f \<in> set (filter (\<lambda>f. result f = REJECT) fs)" by simp
  then show ?thesis by force
qed

lemma combine_reject:
  assumes "REJECT \<in> result ` set (factor_values fs)"
  shows "combine_decision_factors fs =
           Inr \<lparr> decision = REJECTED,
                 final_confidence =
                   Max (confidence ` {f \<in> set (factor_values fs). result f = REJECT}) \<rparr>"
proof -
  let ?rj = "filter (\<lambda>f. result f = REJECT) (factor_values fs)"
  have ne: "map confidence ?rj \<noteq> []"
    using reject_filter_nonempty [OF assms] by simp
  have "py_max (map confidence ?rj) = Inr (Max (set (map confidence ?rj)))"
    using ne by (rule py_max_Max)
  moreover have "set (map confidence ?rj) = confidence ` {f \<in> set (factor_values fs). result f = REJECT}"
    by auto
  ultimately have "py_max (map confidence ?rj) =
      Inr (Max (confidence ` {f \<in> set (factor_values fs). result f = REJECT}))"
    by simp
  then show ?thesis
    using assms by (simp add: combine_decision_factors_def Let_def)
qed

lemma np_mean_three: "np_mean [a, b, c] = (a + b + c) / 3"
  by (simp add: np_mean_def)

lemma combine_review:
  assumes "REJECT \<notin> result ` set (factor_values fs)"
      and "REVIEW \<in> result ` set (factor_values fs)"
  shows "combine_decision_factors fs =
           Inr \<lparr> decision = REVIEW_REQUIRED,
                 final_confidence =
                   (confidence (safety_check fs) + confidence (content_check fs)
                      + confidence (text_check fs)) / 3 \<rparr>"
proof -
  have "map confidence (factor_values fs) =
          [confidence (safety_check fs), confidence (content_check fs), confidence (text_check fs)]"
    by (simp add: factor_values_def)
  then have "np_mean (map confidence (factor_values fs)) =
          (confidence (safety_check fs) + confidence (content_check fs)
             + confidence (text_check fs)) / 3"
    by (simp only: np_mean_three)
  then show ?thesis
    using assms by (simp add: combine_decision_factors_def Let_def)
qed

lemma combine_approve:
  assumes "REJECT \<notin> result ` set (factor_values fs)"
      and "REVIEW \<notin> result ` set (factor_values fs)"
  shows "combine_decision_factors fs =
           Inr \<lparr> decision = APPROVED,
                 final_confidence =
                   (confidence (safety_check fs) + confidence (content_check fs)
                      + confidence (text_check fs)) / 3 \<rparr>"
proof -
  have "map confidence (factor_values fs) =
          [confidence (safety_check fs), confidence (content_check fs), confidence (text_check fs)]"
    by (simp add: factor_values_def)
  then have "np_mean (map confidence (factor_values fs)) =
          (confidence (safety_check fs) + confidence (content_check fs)
             + confidence (text_check fs)) / 3"
    by (simp only: np_mean_three)
  then show ?thesis
    using assms by (simp add: combine_decision_factors_def Let_def)
qed

lemma combine_total: "\<exists>final. combine_decision_factors fs = Inr final"
proof (cases "REJECT \<in> result ` set (factor_values fs)")
  case True
  then show ?thesis using combine_reject by blast
next
  case False
  then show ?thesis
    by (cases "REVIEW \<in> result ` set (factor_values fs)")
       (use combine_review combine_approve in blast)+
qed






lemmas model_defs =
  make_moderation_decision_def evaluate_safety_def evaluate_content_def evaluate_text_def
  combine_decision_factors_def factor_values_def np_mean_def decode_utf8_def
  get_content_category_name_def category_map_def str_bool_def strip_def lower_def
  lower_char_def isspace_def initialize_def Let_def

subsection \<open>The fusion rule\<close>







subsection \<open>The text factor\<close>








subsection \<open>The batch loop\<close>

lemma execute_loop_map:
  "execute_loop self requests responses =
     responses @ map (\<lambda>request. case process_request self request of
                                  Inr ts \<Rightarrow> InferenceResponse ts
                                | Inl e \<Rightarrow> ErrorResponse e) requests"
  by (induction requests arbitrary: responses) (auto split: sum.splits)

lemma execute_map:
  "execute self requests =
     map (\<lambda>request. case process_request self request of
                       Inr ts \<Rightarrow> InferenceResponse ts
                     | Inl e \<Rightarrow> ErrorResponse e) requests"
  by (simp add: execute_def execute_loop_map)

text \<open>
  Claim C10. \<^verbatim>\<open>execute\<close> returns one response per request, in the order of the
  requests: the response at a position is the output of that request, or the error
  response of its exception, and replacing one request of the batch changes the response
  at no other position.
\<close>

theorem execute_one_response_per_request:
  "length (execute self requests) = length requests \<and>
   (\<forall>i < length requests.
      execute self requests ! i =
        (case process_request self (requests ! i) of
           Inr ts \<Rightarrow> InferenceResponse ts
         | Inl e \<Rightarrow> ErrorResponse e)) \<and>
   (\<forall>i < length requests. \<forall>r. \<forall>j < length requests.
      j \<noteq> i \<longrightarrow> execute self (requests[i := r]) ! j = execute self requests ! j)"
proof (intro conjI allI impI)
  show "length (execute self requests) = length requests"
    by (simp add: execute_map)
next
  fix i assume "i < length requests"
  then show "execute self requests ! i =
        (case process_request self (requests ! i) of
           Inr ts \<Rightarrow> InferenceResponse ts
         | Inl e \<Rightarrow> ErrorResponse e)"
    by (simp add: execute_map)
next
  fix i r j
  assume "i < length requests" "j < length requests" "j \<noteq> i"
  then show "execute self (requests[i := r]) ! j = execute self requests ! j"
    by (simp add: execute_map)
qed

theorem execute_one_response_per_request_witness:
  "length (execute initialize [example_request, example_failing_request, example_request]) = 3 \<and>
   execute initialize [example_request, example_failing_request, example_request] ! 1 =
     ErrorResponse IndexError \<and>
   execute initialize [example_request, example_failing_request, example_request] ! 0 =
     execute initialize [example_request, example_request, example_request] ! 0 \<and>
   execute initialize [example_request, example_failing_request, example_request] ! 2 =
     execute initialize [example_request, example_request, example_request] ! 2"
proof -
  let ?good = "[example_request, example_request, example_request]"
  let ?batch = "[example_request, example_failing_request, example_request]"
  have b: "?batch = ?good[1 := example_failing_request]" by simp
  have f: "process_request initialize example_failing_request = Inl IndexError"
    by (simp add: process_request_def extract_inputs_def as_numpy_def example_failing_request_def
          example_request_def make_moderation_decision_def)
  note t = execute_one_response_per_request [of initialize ?good]
  from t have l: "length (execute initialize ?good) = 3" by simp
  from t have u0: "execute initialize (?good[1 := example_failing_request]) ! 0
                    = execute initialize ?good ! 0"
    and u2: "execute initialize (?good[1 := example_failing_request]) ! 2
                    = execute initialize ?good ! 2"
    by (simp_all del: list_update.simps)
  note t' = execute_one_response_per_request [of initialize ?batch]
  from t' have l': "length (execute initialize ?batch) = 3" by simp
  from t' have "execute initialize ?batch ! 1 =
        (case process_request initialize (?batch ! 1) of
           Inr ts \<Rightarrow> InferenceResponse ts
         | Inl e \<Rightarrow> ErrorResponse e)"
    by simp
  then have e: "execute initialize ?batch ! 1 = ErrorResponse IndexError"
    by (simp add: f)
  from l' e u0 u2 show ?thesis by (simp only: b)
qed

subsection \<open>What the verdict does not depend on\<close>

text \<open>
  Claim C8. The verdict does not depend on the configured safety threshold: with every
  other attribute and the inputs equal, \<^verbatim>\<open>_make_moderation_decision\<close> and
  \<^verbatim>\<open>execute\<close> return the same for every value of \<open>safety_threshold\<close>.
\<close>

theorem safety_threshold_unused:
  "make_moderation_decision (self \<lparr> safety_threshold := t \<rparr>) inp =
     make_moderation_decision self inp \<and>
   execute (self \<lparr> safety_threshold := t \<rparr>) requests = execute self requests"
proof -
  have c: "evaluate_content (self \<lparr> safety_threshold := t \<rparr>) cc conf =
             evaluate_content self cc conf" for cc conf
    by (simp add: evaluate_content_def)
  have x: "evaluate_text (self \<lparr> safety_threshold := t \<rparr>) s tc =
             evaluate_text self s tc" for s tc
    by (simp add: evaluate_text_def cong: option.case_cong)
  have m: "make_moderation_decision (self \<lparr> safety_threshold := t \<rparr>) inp =
             make_moderation_decision self inp" for inp
    unfolding make_moderation_decision_def c x ..
  have p: "process_request (self \<lparr> safety_threshold := t \<rparr>) r = process_request self r" for r
    unfolding process_request_def m ..
  have "execute (self \<lparr> safety_threshold := t \<rparr>) requests = execute self requests"
    unfolding execute_map p ..
  with m show ?thesis by blast
qed

text \<open>
  Claim C9. Two requests that differ only in the contents of the \<^verbatim>\<open>content_scores\<close>
  and \<^verbatim>\<open>detected_language\<close> tensors get the same response: the decision logic
  extracts the two arrays and never reads them.
\<close>

theorem unread_inputs:
  "make_moderation_decision self (inp \<lparr> content_scores := cs, detected_language := dl \<rparr>) =
     make_moderation_decision self inp \<and>
   process_request self
       (request \<lparr> req_content_scores := Some cs, req_detected_language := Some dl \<rparr>) =
     process_request self
       (request \<lparr> req_content_scores := Some cs', req_detected_language := Some dl' \<rparr>) \<and>
   execute self
       (map (\<lambda>r. r \<lparr> req_content_scores := Some cs, req_detected_language := Some dl \<rparr>)
          requests) =
     execute self
       (map (\<lambda>r. r \<lparr> req_content_scores := Some cs', req_detected_language := Some dl' \<rparr>)
          requests)"
proof -
  have m: "make_moderation_decision self (i \<lparr> content_scores := a, detected_language := b \<rparr>) =
             make_moderation_decision self i" for i a b
    by (simp add: make_moderation_decision_def cong: sum.case_cong)
  have e1: "extract_inputs (r \<lparr> req_content_scores := Some a', req_detected_language := Some b' \<rparr>) = Inl e"
    if "extract_inputs (r \<lparr> req_content_scores := Some a, req_detected_language := Some b \<rparr>) = Inl e"
    for r a b a' b' e
    using that by (auto simp: extract_inputs_def as_numpy_def split: option.splits)
  have e2: "extract_inputs (r \<lparr> req_content_scores := Some a', req_detected_language := Some b' \<rparr>) =
              Inr (i \<lparr> content_scores := a', detected_language := b' \<rparr>)"
    if "extract_inputs (r \<lparr> req_content_scores := Some a, req_detected_language := Some b \<rparr>) = Inr i"
    for r a b a' b' i
    using that by (auto simp: extract_inputs_def as_numpy_def split: option.splits)
  have p2: "process_request self (r \<lparr> req_content_scores := Some cs, req_detected_language := Some dl \<rparr>) =
            process_request self (r \<lparr> req_content_scores := Some cs', req_detected_language := Some dl' \<rparr>)"
    for r
  proof (cases "extract_inputs (r \<lparr> req_content_scores := Some cs, req_detected_language := Some dl \<rparr>)")
    case (Inl e)
    from Inl e1 [OF Inl, where a'=cs' and b'=dl'] show ?thesis by (simp add: process_request_def)
  next
    case (Inr i)
    from Inr e2 [OF Inr, where a'=cs' and b'=dl'] m [where i=i and a=cs' and b=dl'] show ?thesis
      by (simp add: process_request_def)
  qed
  have x: "execute self
       (map (\<lambda>r. r \<lparr> req_content_scores := Some cs, req_detected_language := Some dl \<rparr>)
          requests) =
     execute self
       (map (\<lambda>r. r \<lparr> req_content_scores := Some cs', req_detected_language := Some dl' \<rparr>)
          requests)"
    by (simp add: execute_map p2)
  from m p2 x show ?thesis by blast
qed

subsection \<open>The range of the confidence\<close>










subsection \<open>Inputs out of contract\<close>

text \<open>
  Claim C4 says that a malformed bundle fails with a validation error naming the field.
  The docstring of \<^verbatim>\<open>_extract_inputs\<close> reads "Extract and validate input tensors",
  and the code validates nothing: a content confidence of 1.5, an unknown risk level and
  a row of three safety scores are each answered with an APPROVED verdict (the first with
  a confidence above 1), and a request with a missing tensor gets the same
  AttributeError response whichever tensor is missing.
\<close>

theorem malformed_bundles_accepted:
  "(\<exists>md1 md2 md3.
      execute initialize
        [example_confidence_request, example_risk_request, example_short_scores_request] =
        [InferenceResponse
           [(''moderation_decision'', Decision_array [APPROVED]),
            (''confidence_score'', Float32_array [17 / 15]),
            (''content_category'', Object_array [''tabby_cat'']),
            (''safety_assessment'', Object_array [''Risk: LOW, Safe: True'']),
            (''extracted_text'', Object_array []),
            (''processing_metadata'', Json_array [md1])],
         InferenceResponse
           [(''moderation_decision'', Decision_array [APPROVED]),
            (''confidence_score'', Float32_array [9 / 10]),
            (''content_category'', Object_array [''tabby_cat'']),
            (''safety_assessment'', Object_array [''Risk: BANANA, Safe: True'']),
            (''extracted_text'', Object_array []),
            (''processing_metadata'', Json_array [md2])],
         InferenceResponse
           [(''moderation_decision'', Decision_array [APPROVED]),
            (''confidence_score'', Float32_array [9 / 10]),
            (''content_category'', Object_array [''tabby_cat'']),
            (''safety_assessment'', Object_array [''Risk: LOW, Safe: True'']),
            (''extracted_text'', Object_array []),
            (''processing_metadata'', Json_array [md3])]]) \<and>
   execute initialize
     [example_request \<lparr> req_is_safe := None \<rparr>, example_request \<lparr> req_risk_level := None \<rparr>] =
     [ErrorResponse AttributeError, ErrorResponse AttributeError]"
proof -
  have p1: "\<exists>md. process_request initialize example_confidence_request =
          Inr [(''moderation_decision'', Decision_array [APPROVED]),
            (''confidence_score'', Float32_array [17 / 15]),
            (''content_category'', Object_array [''tabby_cat'']),
            (''safety_assessment'', Object_array [''Risk: LOW, Safe: True'']),
            (''extracted_text'', Object_array []),
            (''processing_metadata'', Json_array [md])]"
    by (simp add: example_confidence_request_def example_request_def process_request_def
          extract_inputs_def as_numpy_def create_response_tensors_def model_defs)
  have p2: "\<exists>md. process_request initialize example_risk_request =
          Inr [(''moderation_decision'', Decision_array [APPROVED]),
            (''confidence_score'', Float32_array [9 / 10]),
            (''content_category'', Object_array [''tabby_cat'']),
            (''safety_assessment'', Object_array [''Risk: BANANA, Safe: True'']),
            (''extracted_text'', Object_array []),
            (''processing_metadata'', Json_array [md])]"
    by (simp add: example_risk_request_def example_request_def process_request_def
          extract_inputs_def as_numpy_def create_response_tensors_def model_defs)
  have p3: "\<exists>md. process_request initialize example_short_scores_request =
          Inr [(''moderation_decision'', Decision_array [APPROVED]),
            (''confidence_score'', Float32_array [9 / 10]),
            (''content_category'', Object_array [''tabby_cat'']),
            (''safety_assessment'', Object_array [''Risk: LOW, Safe: True'']),
            (''extracted_text'', Object_array []),
            (''processing_metadata'', Json_array [md])]"
    by (simp add: example_short_scores_request_def example_request_def process_request_def
          extract_inputs_def as_numpy_def create_response_tensors_def model_defs)
  have p4: "process_request initialize (example_request \<lparr> req_is_safe := None \<rparr>) =
              Inl AttributeError"
    by (simp add: example_request_def process_request_def extract_inputs_def as_numpy_def)
  have p5: "process_request initialize (example_request \<lparr> req_risk_level := None \<rparr>) =
              Inl AttributeError"
    by (simp add: example_request_def process_request_def extract_inputs_def as_numpy_def)
  from p1 p2 p3 obtain md1 md2 md3 where
    q: "process_request initialize example_confidence_request =
          Inr [(''moderation_decision'', Decision_array [APPROVED]),
            (''confidence_score'', Float32_array [17 / 15]),
            (''content_category'', Object_array [''tabby_cat'']),
            (''safety_assessment'', Object_array [''Risk: LOW, Safe: True'']),
            (''extracted_text'', Object_array []),
            (''processing_metadata'', Json_array [md1])]"
       "process_request initialize example_risk_request =
          Inr [(''moderation_decision'', Decision_array [APPROVED]),
            (''confidence_score'', Float32_array [9 / 10]),
            (''content_category'', Object_array [''tabby_cat'']),
            (''safety_assessment'', Object_array [''Risk: BANANA, Safe: True'']),
            (''extracted_text'', Object_array []),
            (''processing_metadata'', Json_array [md2])]"
       "process_request initialize example_short_scores_request =
          Inr [(''moderation_decision'', Decision_array [APPROVED]),
            (''confidence_score'', Float32_array [9 / 10]),
            (''content_category'', Object_array [''tabby_cat'']),
            (''safety_assessment'', Object_array [''Risk: LOW, Safe: True'']),
            (''extracted_text'', Object_array []),
            (''processing_metadata'', Json_array [md3])]"
    by (elim exE)
  have a: "execute initialize
        [example_confidence_request, example_risk_request, example_short_scores_request] =
        [InferenceResponse
           [(''moderation_decision'', Decision_array [APPROVED]),
            (''confidence_score'', Float32_array [17 / 15]),
            (''content_category'', Object_array [''tabby_cat'']),
            (''safety_assessment'', Object_array [''Risk: LOW, Safe: True'']),
            (''extracted_text'', Object_array []),
            (''processing_metadata'', Json_array [md1])],
         InferenceResponse
           [(''moderation_decision'', Decision_array [APPROVED]),
            (''confidence_score'', Float32_array [9 / 10]),
            (''content_category'', Object_array [''tabby_cat'']),
            (''safety_assessment'', Object_array [''Risk: BANANA, Safe: True'']),
            (''extracted_text'', Object_array []),
            (''processing_metadata'', Json_array [md2])],
         InferenceResponse
           [(''moderation_decision'', Decision_array [APPROVED]),
            (''confidence_score'', Float32_array [9 / 10]),
            (''content_category'', Object_array [''tabby_cat'']),
            (''safety_assessment'', Object_array [''Risk: LOW, Safe: True'']),
            (''extracted_text'', Object_array []),
            (''processing_metadata'', Json_array [md3])]]"
    by (simp add: execute_def q)
  have b: "execute initialize
     [example_request \<lparr> req_is_safe := None \<rparr>, example_request \<lparr> req_risk_level := None \<rparr>] =
     [ErrorResponse AttributeError, ErrorResponse AttributeError]"
    by (simp add: execute_def p4 p5)
  from a b show ?thesis by blast
qed

end
